theory Spec2Isabelle
  imports Complex_Main
begin

section \<open>Backtest strategies and performance analytics\<close>

text \<open>
  A shallow embedding of the strategy classes (\<^verbatim>\<open>src/backtesting/base_strategy.py\<close>,
  \<^verbatim>\<open>src/strategies/*.py\<close>), of the result extraction of
  \<^verbatim>\<open>src/backtesting/backtest_engine.py\<close>, of the metrics of
  \<^verbatim>\<open>src/analytics/performance_analyzer.py\<close> and of the equity series built in
  \<^verbatim>\<open>src/cli.py\<close>. Floating-point numbers are idealised as real numbers without
  rounding; the special values of the float type (NaN and the two infinities), which the
  code can produce and compare against, are kept explicit.
\<close>

subsection \<open>Float values and series\<close>

text \<open>
  A float is a real number or one of the three special values. The operations follow
  IEEE 754 as NumPy and pandas apply it to \<^verbatim>\<open>float64\<close> (a division by zero yields an
  infinity or NaN, NaN propagates and compares false with everything), without rounding,
  overflow or signed zeros.
\<close>

datatype fl = Fin real | PInf | NInf | NaN

fun fneg :: "fl \<Rightarrow> fl" where
  "fneg (Fin a) = Fin (- a)"
| "fneg PInf = NInf"
| "fneg NInf = PInf"
| "fneg NaN = NaN"

fun fadd :: "fl \<Rightarrow> fl \<Rightarrow> fl" where
  "fadd NaN y = NaN"
| "fadd x NaN = NaN"
| "fadd (Fin a) (Fin b) = Fin (a + b)"
| "fadd PInf NInf = NaN"
| "fadd NInf PInf = NaN"
| "fadd PInf y = PInf"
| "fadd NInf y = NInf"
| "fadd x PInf = PInf"
| "fadd x NInf = NInf"

definition fsub :: "fl \<Rightarrow> fl \<Rightarrow> fl" where
  "fsub x y = fadd x (fneg y)"

text \<open>The sign of a value that is not NaN, as \<open>-1\<close>, \<open>0\<close> or \<open>1\<close>.\<close>

fun fsgn :: "fl \<Rightarrow> int" where
  "fsgn (Fin a) = (if a < 0 then - 1 else if a = 0 then 0 else 1)"
| "fsgn PInf = 1"
| "fsgn NInf = - 1"
| "fsgn NaN = 0"

definition signed_inf :: "int \<Rightarrow> fl" where
  "signed_inf k = (if k = 0 then NaN else if k > 0 then PInf else NInf)"

fun fmul :: "fl \<Rightarrow> fl \<Rightarrow> fl" where
  "fmul NaN y = NaN"
| "fmul x NaN = NaN"
| "fmul (Fin a) (Fin b) = Fin (a * b)"
| "fmul x y = signed_inf (fsgn x * fsgn y)"

fun fdiv :: "fl \<Rightarrow> fl \<Rightarrow> fl" where
  "fdiv NaN y = NaN"
| "fdiv x NaN = NaN"
| "fdiv (Fin a) (Fin b) = (if b \<noteq> 0 then Fin (a / b) else signed_inf (fsgn (Fin a)))"
| "fdiv (Fin a) y = Fin 0"
| "fdiv x (Fin b) = signed_inf (fsgn x * (if b < 0 then - 1 else 1))"
| "fdiv x y = NaN"

fun fsqrt :: "fl \<Rightarrow> fl" where
  "fsqrt (Fin a) = (if a < 0 then NaN else Fin (sqrt a))"
| "fsqrt PInf = PInf"
| "fsqrt NInf = NaN"
| "fsqrt NaN = NaN"

fun flt :: "fl \<Rightarrow> fl \<Rightarrow> bool" where
  "flt NaN y = False"
| "flt x NaN = False"
| "flt (Fin a) (Fin b) = (a < b)"
| "flt x NInf = False"
| "flt PInf y = False"
| "flt x y = True"

definition feq :: "fl \<Rightarrow> fl \<Rightarrow> bool" where
  "feq x y = (x \<noteq> NaN \<and> x = y)"


text \<open>
  A pandas series of floats is the list of its values. \<^verbatim>\<open>pct_change\<close> has nothing to
  compare the first value with, \<^verbatim>\<open>dropna\<close> removes NaN only, and \<^verbatim>\<open>sum\<close>, \<^verbatim>\<open>mean\<close>,
  \<^verbatim>\<open>std\<close> and \<^verbatim>\<open>min\<close> skip the NaN entries of the series; \<^verbatim>\<open>std\<close> is the sample
  deviation (\<^verbatim>\<open>ddof=1\<close>), which is NaN for fewer than two values, and it adds the
  squared deviations from the mean as they are, so that an infinite entry (whose deviation
  from the infinite mean is NaN) makes it NaN.
\<close>

fun pct_steps :: "real \<Rightarrow> real list \<Rightarrow> fl list" where
  "pct_steps prev [] = []"
| "pct_steps prev (x # xs) = fsub (fdiv (Fin x) (Fin prev)) (Fin 1) # pct_steps x xs"

fun pct_change :: "real list \<Rightarrow> fl list" where
  "pct_change [] = []"
| "pct_change (x # xs) = NaN # pct_steps x xs"

definition dropna :: "fl list \<Rightarrow> fl list" where
  "dropna xs = filter (\<lambda>v. v \<noteq> NaN) xs"

definition plain_sum :: "fl list \<Rightarrow> fl" where
  "plain_sum xs = foldl fadd (Fin 0) xs"

definition series_sum :: "fl list \<Rightarrow> fl" where
  "series_sum xs = plain_sum (dropna xs)"

definition series_mean :: "fl list \<Rightarrow> fl" where
  "series_mean xs =
     (if dropna xs = [] then NaN
      else fdiv (series_sum xs) (Fin (real (length (dropna xs)))))"

definition series_std :: "fl list \<Rightarrow> fl" where
  "series_std xs =
     (let ys = dropna xs in
      if length ys < 2 then NaN
      else fsqrt (fdiv (plain_sum (map (\<lambda>y. fmul (fsub (series_mean ys) y) (fsub (series_mean ys) y)) ys))
                       (Fin (real (length ys) - 1))))"




fun scan_max :: "real \<Rightarrow> real list \<Rightarrow> real list" where
  "scan_max m [] = []"
| "scan_max m (x # xs) = max m x # scan_max (max m x) xs"

fun expanding_max :: "real list \<Rightarrow> real list" where
  "expanding_max [] = []"
| "expanding_max (x # xs) = x # scan_max x xs"

subsection \<open>PerformanceAnalyzer\<close>

definition DAYS_PER_YEAR :: nat where
  "DAYS_PER_YEAR = 252"

definition RISK_FREE_RATE :: real where
  "RISK_FREE_RATE = 65 / 1000"

text \<open>
  \<^verbatim>\<open>**\<close> on a \<^verbatim>\<open>numpy.float64\<close> base: a negative base with an exponent that is not a
  whole number gives NaN.
\<close>

definition np_pow :: "real \<Rightarrow> real \<Rightarrow> fl" where
  "np_pow b e =
     (if b > 0 then Fin (b powr e)
      else if b = 0 then (if e > 0 then Fin 0 else if e = 0 then Fin 1 else PInf)
      else if e = real_of_int \<lfloor>e\<rfloor> then Fin (b powi \<lfloor>e\<rfloor>)
      else NaN)"

definition calculate_total_return :: "real list \<Rightarrow> real" where
  "calculate_total_return returns =
     (if length returns = 0 then 0 else (last returns - 1) * 100)"

definition calculate_annual_return :: "real list \<Rightarrow> fl" where
  "calculate_annual_return returns =
     (if length returns = 0 then Fin 0
      else
        (let total_return = last returns - 1;
             n_years = real (length returns) / real DAYS_PER_YEAR
         in if n_years \<le> 0 then Fin 0
            else fmul (fsub (np_pow (1 + total_return) (1 / n_years)) (Fin 1)) (Fin 100)))"

definition calculate_sortino_ratio :: "real \<Rightarrow> real list \<Rightarrow> fl" where
  "calculate_sortino_ratio risk_free_rate returns =
     (if length returns < 2 then Fin 0
      else
        (let daily_returns = dropna (pct_change returns) in
         if length daily_returns = 0 then Fin 0
         else
           (let downside_returns = filter (\<lambda>r. flt r (Fin 0)) daily_returns in
            if length downside_returns = 0 \<or> feq (series_std downside_returns) (Fin 0) then Fin 0
            else
              (let excess_return =
                     fsub (series_mean daily_returns) (Fin (risk_free_rate / real DAYS_PER_YEAR))
               in fmul (fdiv excess_return (series_std downside_returns))
                       (Fin (sqrt (real DAYS_PER_YEAR)))))))"

definition calculate_volatility :: "real list \<Rightarrow> fl" where
  "calculate_volatility returns =
     (if length returns < 2 then Fin 0
      else
        (let daily_returns = dropna (pct_change returns) in
         if length daily_returns = 0 then Fin 0
         else fmul (fmul (series_std daily_returns) (Fin (sqrt (real DAYS_PER_YEAR)))) (Fin 100)))"



text \<open>A trade is a dictionary; \<^verbatim>\<open>trade.get('pnl', 0)\<close> reads its profit.\<close>

type_synonym trade = "string \<rightharpoonup> real"

definition get_pnl :: "trade \<Rightarrow> real" where
  "get_pnl t = (case t ''pnl'' of None \<Rightarrow> 0 | Some v \<Rightarrow> v)"

definition gross_profit :: "trade list \<Rightarrow> real" where
  "gross_profit trades = sum_list (map get_pnl (filter (\<lambda>t. get_pnl t > 0) trades))"

definition gross_loss :: "trade list \<Rightarrow> real" where
  "gross_loss trades = \<bar>sum_list (map get_pnl (filter (\<lambda>t. get_pnl t < 0) trades))\<bar>"

definition calculate_profit_factor :: "trade list \<Rightarrow> fl" where
  "calculate_profit_factor trades =
     (if length trades = 0 then Fin 0
      else if gross_loss trades = 0 then (if gross_profit trades = 0 then Fin 0 else PInf)
      else Fin (gross_profit trades / gross_loss trades))"

text \<open>
  The annual return as the specification words it, for a given number of years and a
  total return in percent.
\<close>

definition spec_annual_return :: "real \<Rightarrow> real \<Rightarrow> fl" where
  "spec_annual_return n_years total_return =
     (if n_years \<le> 0 then Fin 0
      else fmul (fsub (np_pow (1 + total_return / 100) (1 / n_years)) (Fin 1)) (Fin 100))"

subsection \<open>BacktestEngine\<close>

text \<open>
  The trade analysis of the simulation library is a dictionary of dictionaries;
  \<^verbatim>\<open>_extract_results\<close> reads the \<^verbatim>\<open>total\<close> entries of its \<^verbatim>\<open>won\<close> and \<^verbatim>\<open>lost\<close> groups.
\<close>

type_synonym analysis = "string \<rightharpoonup> (string \<rightharpoonup> real)"

definition dict_get :: "(string \<rightharpoonup> real) \<Rightarrow> string \<Rightarrow> real \<Rightarrow> real" where
  "dict_get d k dflt = (case d k of None \<Rightarrow> dflt | Some v \<Rightarrow> v)"

definition extract_profit_factor :: "analysis \<Rightarrow> fl" where
  "extract_profit_factor trades =
     (case trades ''won'' of
        None \<Rightarrow> Fin 0
      | Some won \<Rightarrow>
          (case trades ''lost'' of
             None \<Rightarrow> Fin 0
           | Some lost \<Rightarrow>
               (let won_sum = dict_get won ''total'' 0;
                    lost_sum = \<bar>dict_get lost ''total'' 0\<bar>
                in if lost_sum > 0 then Fin (won_sum / lost_sum)
                   else if won_sum > 0 then PInf
                   else Fin 0)))"


















subsection \<open>The equity series of the command line\<close>

text \<open>
  \<^verbatim>\<open>pd.Series([capital * (1 + results['total_return']/100)] * len(dates))\<close> and the
  drawdown that \<^verbatim>\<open>plot_drawdown\<close> computes from it.
\<close>

definition cli_equity_values :: "real \<Rightarrow> real \<Rightarrow> nat \<Rightarrow> real list" where
  "cli_equity_values capital total_return n = replicate n (capital * (1 + total_return / 100))"

definition plot_drawdown :: "real list \<Rightarrow> fl list" where
  "plot_drawdown equity_values =
     map (\<lambda>(c, m). fmul (fdiv (Fin (c - m)) (Fin m)) (Fin 100))
       (zip equity_values (expanding_max equity_values))"

subsection \<open>Orders, broker and the strategy base class\<close>

datatype ordtype = Buy | Sell

datatype order_status =
  Created | Submitted | Accepted | Partial | Completed | Canceled | Expired | Margin | Rejected

record order =
  otype :: ordtype
  status :: order_status
  executed_price :: real
  executed_comm :: real

definition isbuy :: "order \<Rightarrow> bool" where
  "isbuy ord = (otype ord = Buy)"

definition issell :: "order \<Rightarrow> bool" where
  "issell ord = (otype ord = Sell)"

text \<open>
  The broker as the strategy sees it: the size of the open position (\<^verbatim>\<open>self.position\<close> is
  truthy exactly when the size is not zero) and the orders handed over by
  \<^verbatim>\<open>self.buy()\<close> and \<^verbatim>\<open>self.sell()\<close>.
\<close>

record broker =
  cash :: real
  position_size :: real
  placed :: "order list"

datatype signal = BUY | SELL | HOLD

text \<open>
  The attributes set by \<^verbatim>\<open>BaseStrategy.__init__\<close>, the broker, and the tags of the
  lines written by \<^verbatim>\<open>self.log\<close> (\<^verbatim>\<open>BUY CREATE\<close>, \<^verbatim>\<open>SELL CREATE\<close>).
\<close>

record strategy =
  pending :: "order option"
  buy_price :: "real option"
  buy_comm :: "real option"
  trade_count :: int
  winning_trades :: int
  losing_trades :: int
  total_profit :: real
  brk :: broker
  signal_log :: "signal list"

definition init_strategy :: "broker \<Rightarrow> strategy" where
  "init_strategy b =
     \<lparr>pending = None, buy_price = None, buy_comm = None, trade_count = 0,
      winning_trades = 0, losing_trades = 0, total_profit = 0, brk = b, signal_log = []\<rparr>"

definition in_position :: "'a strategy_scheme \<Rightarrow> bool" where
  "in_position s = (position_size (brk s) \<noteq> 0)"

definition new_order :: "ordtype \<Rightarrow> order" where
  "new_order ty = \<lparr>otype = ty, status = Submitted, executed_price = 0, executed_comm = 0\<rparr>"

text \<open>\<^verbatim>\<open>self.order = self.buy()\<close>: the order goes to the broker and is remembered.\<close>

definition place :: "ordtype \<Rightarrow> 'a strategy_scheme \<Rightarrow> 'a strategy_scheme" where
  "place ty s =
     s\<lparr>pending := Some (new_order ty),
       brk := (brk s)\<lparr>placed := placed (brk s) @ [new_order ty]\<rparr>\<rparr>"

definition buy_signal :: "'a strategy_scheme \<Rightarrow> 'a strategy_scheme" where
  "buy_signal s = (if \<not> in_position s then place Buy s else s)"

definition sell_signal :: "'a strategy_scheme \<Rightarrow> 'a strategy_scheme" where
  "sell_signal s = (if in_position s then place Sell s else s)"

definition log_signal :: "signal \<Rightarrow> 'a strategy_scheme \<Rightarrow> 'a strategy_scheme" where
  "log_signal sg s = s\<lparr>signal_log := signal_log s @ [sg]\<rparr>"

text \<open>
  \<^verbatim>\<open>profit = order.executed.price - self.buy_price if self.buy_price else 0\<close>: a buy price
  that is \<^verbatim>\<open>None\<close> or \<^verbatim>\<open>0\<close> is falsy.
\<close>

definition sell_profit :: "'a strategy_scheme \<Rightarrow> order \<Rightarrow> real" where
  "sell_profit s ord =
     (case buy_price s of
        None \<Rightarrow> 0
      | Some bp \<Rightarrow> if bp \<noteq> 0 then executed_price ord - bp else 0)"

definition notify_order :: "'a strategy_scheme \<Rightarrow> order \<Rightarrow> 'a strategy_scheme" where
  "notify_order s ord =
     (if status ord \<in> {Submitted, Accepted} then s
      else if status ord \<in> {Completed} then
        (let s1 =
           (if isbuy ord then
              s\<lparr>buy_price := Some (executed_price ord), buy_comm := Some (executed_comm ord)\<rparr>
            else if issell ord then
              (let profit = sell_profit s ord;
                   s2 = (if profit > 0 then s\<lparr>winning_trades := winning_trades s + 1\<rparr>
                         else s\<lparr>losing_trades := losing_trades s + 1\<rparr>)
               in s2\<lparr>total_profit := total_profit s2 + profit\<rparr>)
            else s)
         in s1\<lparr>trade_count := trade_count s1 + 1, pending := None\<rparr>)
      else if status ord \<in> {Canceled, Margin, Rejected} then s\<lparr>pending := None\<rparr>
      else s)"

definition closed_trades :: "'a strategy_scheme \<Rightarrow> int" where
  "closed_trades s = winning_trades s + losing_trades s"

subsection \<open>The four strategies\<close>

text \<open>
  Each \<^verbatim>\<open>next\<close> reads the current values of its indicators (\<^verbatim>\<open>self.rsi[0]\<close>,
  \<^verbatim>\<open>self.data.close[0]\<close>, ...), which are arguments here, and keeps the
  \<^verbatim>\<open>if\<close>/\<^verbatim>\<open>elif\<close> order of the source.
\<close>

record rsi_params =
  rsi_period :: nat
  rsi_lower :: real
  rsi_upper :: real

definition RSIStrategy_next :: "rsi_params \<Rightarrow> real \<Rightarrow> strategy \<Rightarrow> strategy" where
  "RSIStrategy_next p rsi s =
     (if rsi < rsi_lower p \<and> \<not> in_position s then log_signal BUY (buy_signal s)
      else if rsi > rsi_upper p \<and> in_position s then log_signal SELL (sell_signal s)
      else s)"

definition BollingerBandsStrategy_next :: "real \<Rightarrow> real \<Rightarrow> real \<Rightarrow> strategy \<Rightarrow> strategy" where
  "BollingerBandsStrategy_next close bb_bot bb_top s =
     (if close \<le> bb_bot \<and> \<not> in_position s then log_signal BUY (buy_signal s)
      else if close \<ge> bb_top \<and> in_position s then log_signal SELL (sell_signal s)
      else s)"

record momentum_params =
  roc_period :: nat
  roc_threshold :: real

record momentum_strategy = strategy +
  last_roc :: real

definition MomentumStrategy_next ::
  "momentum_params \<Rightarrow> real \<Rightarrow> real \<Rightarrow> real \<Rightarrow> momentum_strategy \<Rightarrow> momentum_strategy" where
  "MomentumStrategy_next p current_roc current_price current_sma s =
     (let s1 =
        (if current_roc > roc_threshold p \<and> current_price > current_sma \<and> \<not> in_position s
           then log_signal BUY (buy_signal s)
         else if (current_roc < - roc_threshold p \<or> current_price < current_sma) \<and> in_position s
           then log_signal SELL (sell_signal s)
         else s)
      in s1\<lparr>last_roc := current_roc\<rparr>)"

definition MAcrossoverStrategy_next :: "real \<Rightarrow> strategy \<Rightarrow> strategy" where
  "MAcrossoverStrategy_next crossover s =
     (if crossover > 0 then log_signal BUY (buy_signal s)
      else if crossover < 0 then log_signal SELL (sell_signal s)
      else s)"

text \<open>What one call added: the orders handed to the broker and the signals logged.\<close>

definition new_orders :: "'a strategy_scheme \<Rightarrow> 'b strategy_scheme \<Rightarrow> ordtype list" where
  "new_orders s s' = map otype (drop (length (placed (brk s))) (placed (brk s')))"

definition new_signals :: "'a strategy_scheme \<Rightarrow> 'b strategy_scheme \<Rightarrow> signal list" where
  "new_signals s s' = drop (length (signal_log s)) (signal_log s')"

definition branch_taken :: "bool \<Rightarrow> bool \<Rightarrow> signal list" where
  "branch_taken buy_cond sell_cond =
     (if buy_cond then [BUY] else if sell_cond then [SELL] else [])"

definition one_sided :: "bool \<Rightarrow> ordtype list \<Rightarrow> bool" where
  "one_sided buy_cond os =
     (os = [] \<or> (if buy_cond then os = [Buy] else os = [Sell]))"


subsection \<open>Moving averages and the run of the crossover strategy\<close>

text \<open>
  Modelled from the spec: the simple moving average and the crossover indicator, which
  the source takes from the simulation library (\<^verbatim>\<open>bt.indicators.SimpleMovingAverage\<close>,
  \<^verbatim>\<open>bt.indicators.CrossOver\<close>). The average of period \<open>n\<close> is the mean of the last \<open>n\<close>
  closes and is not ready on the first \<open>n - 1\<close> bars; the fast average crosses above the
  slow one when it was at most the slow one on the previous bar and exceeds it on the
  current bar, and crosses below symmetrically; a bar on which a needed value is not ready
  gives no signal.
\<close>

definition sma :: "nat \<Rightarrow> real list \<Rightarrow> nat \<Rightarrow> real option" where
  "sma n closes t =
     (if n = 0 \<or> t + 1 < n \<or> length closes \<le> t then None
      else Some (sum_list (take n (drop (t + 1 - n) closes)) / real n))"

definition crossover :: "nat \<Rightarrow> nat \<Rightarrow> real list \<Rightarrow> nat \<Rightarrow> real option" where
  "crossover fast slow closes t =
     (if t = 0 then None
      else
        (case (sma fast closes (t - 1), sma slow closes (t - 1), sma fast closes t, sma slow closes t) of
           (Some pf, Some ps, Some cf, Some cs) \<Rightarrow>
             Some (if pf \<le> ps \<and> cf > cs then 1 else if pf \<ge> ps \<and> cf < cs then - 1 else 0)
         | _ \<Rightarrow> None))"

text \<open>
  One bar of the run: \<^verbatim>\<open>next\<close> is called when the indicator is ready, then the broker of
  the library (the argument \<open>broker_step\<close>) fills and notifies.
\<close>

definition ma_bar ::
  "(nat \<Rightarrow> strategy \<Rightarrow> strategy) \<Rightarrow> nat \<Rightarrow> nat \<Rightarrow> real list \<Rightarrow> strategy \<Rightarrow> nat \<Rightarrow> strategy" where
  "ma_bar broker_step fast slow closes s t =
     broker_step t
       (case crossover fast slow closes t of
          None \<Rightarrow> s
        | Some c \<Rightarrow> MAcrossoverStrategy_next c s)"

definition ma_run ::
  "(nat \<Rightarrow> strategy \<Rightarrow> strategy) \<Rightarrow> nat \<Rightarrow> nat \<Rightarrow> real list \<Rightarrow> strategy \<Rightarrow> strategy" where
  "ma_run broker_step fast slow closes s0 =
     foldl (ma_bar broker_step fast slow closes) s0 [0..<length closes]"

definition keeps_log :: "(nat \<Rightarrow> strategy \<Rightarrow> strategy) \<Rightarrow> bool" where
  "keeps_log broker_step = (\<forall>t s. signal_log (broker_step t s) = signal_log s)"

section \<open>Properties\<close>

subsection \<open>Signals against the position\<close>

text \<open>
  C7. Asking for a BUY while a position is open, or for a SELL while flat, returns the
  strategy (its broker included) exactly as it was: no order is placed and there is no
  error value to return.
\<close>

theorem invalid_signal_is_noop:
  "(in_position s \<longrightarrow> buy_signal s = s) \<and> (\<not> in_position s \<longrightarrow> sell_signal s = s)"
  by (simp add: buy_signal_def sell_signal_def)

theorem invalid_signal_is_noop_witness:
  "in_position (init_strategy \<lparr>cash = 100, position_size = 3, placed = []\<rparr>)
   \<and> buy_signal (init_strategy \<lparr>cash = 100, position_size = 3, placed = []\<rparr>)
       = init_strategy \<lparr>cash = 100, position_size = 3, placed = []\<rparr>
   \<and> \<not> in_position (init_strategy \<lparr>cash = 100, position_size = 0, placed = []\<rparr>)
   \<and> sell_signal (init_strategy \<lparr>cash = 100, position_size = 0, placed = []\<rparr>)
       = init_strategy \<lparr>cash = 100, position_size = 0, placed = []\<rparr>"
  using invalid_signal_is_noop [of "init_strategy \<lparr>cash = 100, position_size = 3, placed = []\<rparr>"]
    invalid_signal_is_noop [of "init_strategy \<lparr>cash = 100, position_size = 0, placed = []\<rparr>"]
  by (simp add: in_position_def init_strategy_def)

subsection \<open>Counting orders and trades\<close>

text \<open>
  C10. Every completed order, BUY or SELL, adds one to \<^verbatim>\<open>trade_count\<close>; only a completed
  SELL adds one to \<^verbatim>\<open>winning_trades + losing_trades\<close>, so a round trip (a completed BUY
  then a completed SELL) adds two to the first and one to the second. The SELL counts as
  a winning trade exactly when its execution price is strictly above the recorded buy
  price (a recorded price of \<^verbatim>\<open>None\<close> or 0 is falsy and gives the profit 0), and as a
  losing trade in every other case, equal prices included.
\<close>

theorem notify_order_counts:
  assumes "status b = Completed" and "isbuy b" and "status c = Completed" and "issell c"
  shows "trade_count (notify_order s b) = trade_count s + 1
       \<and> trade_count (notify_order s c) = trade_count s + 1
       \<and> closed_trades (notify_order s b) = closed_trades s
       \<and> closed_trades (notify_order s c) = closed_trades s + 1
       \<and> trade_count (notify_order (notify_order s b) c) = trade_count s + 2
       \<and> closed_trades (notify_order (notify_order s b) c) = closed_trades s + 1
       \<and> winning_trades (notify_order s b) = winning_trades s
       \<and> losing_trades (notify_order s b) = losing_trades s
       \<and> winning_trades (notify_order s c) = winning_trades s +
            (if \<exists>bp. buy_price s = Some bp \<and> bp \<noteq> 0 \<and> executed_price c > bp then 1 else 0)
       \<and> losing_trades (notify_order s c) = losing_trades s +
            (if \<exists>bp. buy_price s = Some bp \<and> bp \<noteq> 0 \<and> executed_price c > bp then 0 else 1)
       \<and> winning_trades (notify_order (notify_order s b) c) = winning_trades s +
            (if executed_price b \<noteq> 0 \<and> executed_price c > executed_price b then 1 else 0)
       \<and> losing_trades (notify_order (notify_order s b) c) = losing_trades s +
            (if executed_price b \<noteq> 0 \<and> executed_price c > executed_price b then 0 else 1)"
  using assms
  by (auto simp add: notify_order_def isbuy_def issell_def closed_trades_def sell_profit_def
      Let_def split: option.splits)

theorem notify_order_counts_witness:
  "status \<lparr>otype = Buy, status = Completed, executed_price = 50, executed_comm = 1\<rparr> = Completed
   \<and> isbuy \<lparr>otype = Buy, status = Completed, executed_price = 50, executed_comm = 1\<rparr>
   \<and> status \<lparr>otype = Sell, status = Completed, executed_price = 50, executed_comm = 1\<rparr> = Completed
   \<and> issell \<lparr>otype = Sell, status = Completed, executed_price = 50, executed_comm = 1\<rparr>
   \<and> status \<lparr>otype = Sell, status = Completed, executed_price = 60, executed_comm = 1\<rparr> = Completed
   \<and> issell \<lparr>otype = Sell, status = Completed, executed_price = 60, executed_comm = 1\<rparr>
   \<and> trade_count
        (notify_order
          (notify_order (init_strategy \<lparr>cash = 100, position_size = 0, placed = []\<rparr>)
            \<lparr>otype = Buy, status = Completed, executed_price = 50, executed_comm = 1\<rparr>)
          \<lparr>otype = Sell, status = Completed, executed_price = 50, executed_comm = 1\<rparr>) = 2
   \<and> closed_trades
        (notify_order
          (notify_order (init_strategy \<lparr>cash = 100, position_size = 0, placed = []\<rparr>)
            \<lparr>otype = Buy, status = Completed, executed_price = 50, executed_comm = 1\<rparr>)
          \<lparr>otype = Sell, status = Completed, executed_price = 50, executed_comm = 1\<rparr>) = 1
   \<and> losing_trades
        (notify_order
          (notify_order (init_strategy \<lparr>cash = 100, position_size = 0, placed = []\<rparr>)
            \<lparr>otype = Buy, status = Completed, executed_price = 50, executed_comm = 1\<rparr>)
          \<lparr>otype = Sell, status = Completed, executed_price = 50, executed_comm = 1\<rparr>) = 1
   \<and> winning_trades
        (notify_order
          (notify_order (init_strategy \<lparr>cash = 100, position_size = 0, placed = []\<rparr>)
            \<lparr>otype = Buy, status = Completed, executed_price = 50, executed_comm = 1\<rparr>)
          \<lparr>otype = Sell, status = Completed, executed_price = 50, executed_comm = 1\<rparr>) = 0
   \<and> losing_trades
        (notify_order
          (notify_order (init_strategy \<lparr>cash = 100, position_size = 0, placed = []\<rparr>)
            \<lparr>otype = Buy, status = Completed, executed_price = 50, executed_comm = 1\<rparr>)
          \<lparr>otype = Sell, status = Completed, executed_price = 60, executed_comm = 1\<rparr>) = 0
   \<and> winning_trades
        (notify_order
          (notify_order (init_strategy \<lparr>cash = 100, position_size = 0, placed = []\<rparr>)
            \<lparr>otype = Buy, status = Completed, executed_price = 50, executed_comm = 1\<rparr>)
          \<lparr>otype = Sell, status = Completed, executed_price = 60, executed_comm = 1\<rparr>) = 1"
  using notify_order_counts
    [of "\<lparr>otype = Buy, status = Completed, executed_price = 50, executed_comm = 1\<rparr>"
        "\<lparr>otype = Sell, status = Completed, executed_price = 50, executed_comm = 1\<rparr>"
        "init_strategy \<lparr>cash = 100, position_size = 0, placed = []\<rparr>"]
    notify_order_counts
    [of "\<lparr>otype = Buy, status = Completed, executed_price = 50, executed_comm = 1\<rparr>"
        "\<lparr>otype = Sell, status = Completed, executed_price = 60, executed_comm = 1\<rparr>"
        "init_strategy \<lparr>cash = 100, position_size = 0, placed = []\<rparr>"]
  by (simp add: isbuy_def issell_def init_strategy_def closed_trades_def)

subsection \<open>Precedence of BUY over SELL\<close>

lemma new_of_buy [simp]:
  "new_signals s (log_signal g (buy_signal s)) = [g]"
  "new_orders s (log_signal g (buy_signal s)) = (if in_position s then [] else [Buy])"
  by (simp_all add: new_signals_def new_orders_def log_signal_def buy_signal_def place_def
      new_order_def)

lemma new_of_sell [simp]:
  "new_signals s (log_signal g (sell_signal s)) = [g]"
  "new_orders s (log_signal g (sell_signal s)) = (if in_position s then [Sell] else [])"
  by (simp_all add: new_signals_def new_orders_def log_signal_def sell_signal_def place_def
      new_order_def)

lemma new_of_same [simp]: "new_signals s s = []" "new_orders s s = []"
  by (simp_all add: new_signals_def new_orders_def)

lemma new_of_more [simp]:
  "new_signals s (s'\<lparr>last_roc := r\<rparr>) = new_signals s s'"
  "new_orders s (s'\<lparr>last_roc := r\<rparr>) = new_orders s s'"
  by (simp_all add: new_signals_def new_orders_def)

text \<open>
  C6. In each of the four strategies the branch taken on a bar is the BUY branch when the
  BUY condition holds, the SELL branch only when the BUY condition fails and the SELL
  condition holds, and no branch otherwise; the bar hands at most one order to the broker,
  a Buy in the first case and a Sell in the second, never one of each.
\<close>

theorem buy_condition_has_precedence:
  "new_signals s (RSIStrategy_next p rsi s)
     = branch_taken (rsi < rsi_lower p \<and> \<not> in_position s) (rsi > rsi_upper p \<and> in_position s)
   \<and> one_sided (rsi < rsi_lower p \<and> \<not> in_position s) (new_orders s (RSIStrategy_next p rsi s))
   \<and> new_signals s (BollingerBandsStrategy_next close bb_bot bb_top s)
     = branch_taken (close \<le> bb_bot \<and> \<not> in_position s) (close \<ge> bb_top \<and> in_position s)
   \<and> one_sided (close \<le> bb_bot \<and> \<not> in_position s)
       (new_orders s (BollingerBandsStrategy_next close bb_bot bb_top s))
   \<and> new_signals m (MomentumStrategy_next q roc price avg m)
     = branch_taken (roc > roc_threshold q \<and> price > avg \<and> \<not> in_position m)
         ((roc < - roc_threshold q \<or> price < avg) \<and> in_position m)
   \<and> one_sided (roc > roc_threshold q \<and> price > avg \<and> \<not> in_position m)
       (new_orders m (MomentumStrategy_next q roc price avg m))
   \<and> new_signals s (MAcrossoverStrategy_next cross s)
     = branch_taken (cross > 0) (cross < 0)
   \<and> one_sided (cross > 0) (new_orders s (MAcrossoverStrategy_next cross s))"
  by (simp add: RSIStrategy_next_def BollingerBandsStrategy_next_def MomentumStrategy_next_def
      MAcrossoverStrategy_next_def branch_taken_def one_sided_def Let_def)

subsection \<open>Float arithmetic\<close>

lemma fdiv_NaN_right [simp]: "fdiv x NaN = NaN"
  by (cases x) simp_all

lemma fmul_NaN_right [simp]: "fmul x NaN = NaN"
  by (cases x) simp_all

subsection \<open>Profit factor\<close>

lemma gross_profit_nonneg: "0 \<le> gross_profit ts"
  unfolding gross_profit_def by (induction ts) auto

text \<open>
  C1, as stated, fails: a trade list with one losing trade has gross profit 0 and gross
  loss 5, and its profit factor is 0 although the gross loss is not 0; likewise in the
  engine for a trade analysis with no won and one lost trade.
\<close>

theorem profit_factor_zero_with_losses:
  "calculate_profit_factor [[''pnl'' \<mapsto> - 5]] = Fin 0
   \<and> gross_profit [[''pnl'' \<mapsto> - 5]] = 0
   \<and> gross_loss [[''pnl'' \<mapsto> - 5]] = 5
   \<and> extract_profit_factor
        [''won'' \<mapsto> [''total'' \<mapsto> 0], ''lost'' \<mapsto> [''total'' \<mapsto> 1]] = Fin 0
   \<and> \<not> (calculate_profit_factor [[''pnl'' \<mapsto> - 5]] = Fin 0
          \<longleftrightarrow> gross_profit [[''pnl'' \<mapsto> - 5]] = 0 \<and> gross_loss [[''pnl'' \<mapsto> - 5]] = 0)"
  by (simp add: calculate_profit_factor_def gross_loss_def gross_profit_def get_pnl_def
      extract_profit_factor_def dict_get_def)

text \<open>
  C1, amended. For every trade list the profit factor of the analyzer is +infinity exactly
  when the gross loss is 0 and the gross profit is positive, and it is 0 exactly when the
  gross profit is 0, whatever the gross loss; the gross profit is the sum of the positive
  profits of the trades and the gross loss the absolute sum of the negative ones.
\<close>

theorem profit_factor_sentinels:
  "(calculate_profit_factor ts = PInf \<longleftrightarrow> gross_loss ts = 0 \<and> gross_profit ts > 0)
   \<and> (calculate_profit_factor ts = Fin 0 \<longleftrightarrow> gross_profit ts = 0)"
proof (cases ts)
  case Nil
  then show ?thesis by (simp add: calculate_profit_factor_def gross_profit_def)
next
  case (Cons t rest)
  then show ?thesis
    using gross_profit_nonneg [of ts] by (auto simp add: calculate_profit_factor_def)
qed

theorem profit_factor_sentinels_witness:
  "gross_loss [[''pnl'' \<mapsto> 10], [''pnl'' \<mapsto> 0]] = 0
   \<and> gross_profit [[''pnl'' \<mapsto> 10], [''pnl'' \<mapsto> 0]] = 10
   \<and> calculate_profit_factor [[''pnl'' \<mapsto> 10], [''pnl'' \<mapsto> 0]] = PInf
   \<and> gross_profit [[''pnl'' \<mapsto> - 5], [''pnl'' \<mapsto> 0]] = 0
   \<and> gross_loss [[''pnl'' \<mapsto> - 5], [''pnl'' \<mapsto> 0]] = 5
   \<and> calculate_profit_factor [[''pnl'' \<mapsto> - 5], [''pnl'' \<mapsto> 0]] = Fin 0"
  using profit_factor_sentinels [of "[[''pnl'' \<mapsto> 10], [''pnl'' \<mapsto> 0]]"]
    profit_factor_sentinels [of "[[''pnl'' \<mapsto> - 5], [''pnl'' \<mapsto> 0]]"]
  by (simp add: gross_profit_def gross_loss_def get_pnl_def)

subsection \<open>Configuration errors\<close>






subsection \<open>Degenerate deviations\<close>

text \<open>
  C3. The claim is what the guards of the code aim at, and the code misses it: the series
  1, 0.9, 1 has exactly one negative daily return, the deviation of that single value is
  NaN, the test \<^verbatim>\<open>std() == 0\<close> is false for NaN, and the Sortino ratio comes out as NaN
  instead of 0; the series 1, 1.1 has a single daily return and its volatility is NaN.
\<close>

theorem sortino_and_volatility_nan:
  "calculate_sortino_ratio RISK_FREE_RATE [1, 9 / 10, 1] = NaN
   \<and> calculate_volatility [1, 11 / 10] = NaN"
  by (simp add: calculate_sortino_ratio_def calculate_volatility_def dropna_def
      series_std_def fsub_def feq_def)

subsection \<open>Annual return\<close>

lemma pct_back: "1 + ((x::real) * 100 - 100) / 100 = x"
  by (simp add: diff_divide_distrib)

text \<open>
  C4, as stated, fails: for the one-point series 2 the claim's number of years is
  (1 - 1) / 252 = 0 and the annual return would be 0, but the code divides the length
  itself by 252 and returns (2 ^ 252 - 1) * 100.
\<close>

theorem annual_return_uses_length:
  "calculate_annual_return [2]
   \<noteq> spec_annual_return ((real (length [2::real]) - 1) / real DAYS_PER_YEAR)
        (calculate_total_return [2])"
  by (simp add: calculate_annual_return_def spec_annual_return_def calculate_total_return_def
      Let_def DAYS_PER_YEAR_def np_pow_def fsub_def)

text \<open>
  C4, amended. For every series of length N > 0 the annual return is
  ((1 + total_return / 100) ^ (1 / n_years) - 1) * 100 with n_years = N / 252, the
  number of points (not N - 1) over the trading days per year; n_years is then positive,
  so the value 0 for n_years \<le> 0 is never taken.
\<close>

theorem annual_return_formula:
  "returns \<noteq> [] \<Longrightarrow>
     0 < real (length returns) / real DAYS_PER_YEAR
     \<and> calculate_annual_return returns
       = spec_annual_return (real (length returns) / real DAYS_PER_YEAR)
           (calculate_total_return returns)"
  by (simp add: calculate_annual_return_def spec_annual_return_def calculate_total_return_def
      Let_def DAYS_PER_YEAR_def pct_back)

theorem annual_return_formula_witness:
  "[2::real] \<noteq> []
   \<and> calculate_annual_return [2] = spec_annual_return (1 / 252) 100
   \<and> calculate_annual_return [2] = Fin ((2 ^ 252 - 1) * 100)"
  using annual_return_formula [of "[2]"]
  by (simp add: calculate_total_return_def DAYS_PER_YEAR_def spec_annual_return_def
      np_pow_def fsub_def)

subsection \<open>The plotted equity series\<close>

lemma scan_max_replicate: "scan_max v (replicate n v) = replicate n v"
  by (induction n) auto

lemma expanding_max_replicate: "expanding_max (replicate n v) = replicate n v"
  by (cases n) (auto simp: scan_max_replicate)

lemma zip_replicate_same: "zip (replicate n a) (replicate n b) = replicate n (a, b)"
  by (induction n) auto

text \<open>
  C9, as stated, fails when the constant is 0: with a capital of 100000 and a total return
  of -100 percent every point is 0, and the drawdown (0 - 0) / 0 * 100 is NaN at every
  point, not 0.
\<close>

theorem flat_zero_equity_drawdown_nan:
  "cli_equity_values 100000 (- 100) 3 = [0, 0, 0]
   \<and> plot_drawdown (cli_equity_values 100000 (- 100) 3) = [NaN, NaN, NaN]"
  by (simp add: cli_equity_values_def plot_drawdown_def signed_inf_def numeral_3_eq_3)

text \<open>
  C9, amended. The series built for N bars has N points, each of them
  capital * (1 + total_return / 100); when that value is not 0 the drawdown plotted from
  it is 0 at every point, whatever the equity did during the run, and when it is 0 the
  drawdown is NaN at every point.
\<close>

theorem cli_equity_is_constant:
  "length (cli_equity_values capital tr n) = n
   \<and> (\<forall>v \<in> set (cli_equity_values capital tr n). v = capital * (1 + tr / 100))
   \<and> (capital * (1 + tr / 100) \<noteq> 0 \<longrightarrow>
        plot_drawdown (cli_equity_values capital tr n) = replicate n (Fin 0))
   \<and> (capital * (1 + tr / 100) = 0 \<longrightarrow>
        plot_drawdown (cli_equity_values capital tr n) = replicate n NaN)"
  by (auto simp add: cli_equity_values_def plot_drawdown_def expanding_max_replicate
      zip_replicate_same signed_inf_def)

theorem cli_equity_is_constant_witness:
  "(100000::real) * (1 + 10 / 100) \<noteq> 0
   \<and> cli_equity_values 100000 10 3 = [110000, 110000, 110000]
   \<and> plot_drawdown (cli_equity_values 100000 10 3) = [Fin 0, Fin 0, Fin 0]"
  using cli_equity_is_constant [of 100000 10 3]
  by (simp add: cli_equity_values_def numeral_3_eq_3)

subsection \<open>Maximum drawdown\<close>











subsection \<open>The crossover strategy on rising prices\<close>

lemma sum_list_less_bound:
  "xs \<noteq> [] \<Longrightarrow> \<forall>x \<in> set xs. x < c \<Longrightarrow> sum_list xs < real (length xs) * (c::real)"
proof (induction xs)
  case Nil
  then show ?case by simp
next
  case (Cons x xs)
  show ?case
  proof (cases "xs = []")
    case True
    with Cons.prems show ?thesis by simp
  next
    case False
    with Cons have "sum_list xs < real (length xs) * c" by simp
    moreover have "x < c" using Cons.prems by simp
    ultimately show ?thesis by (simp add: algebra_simps)
  qed
qed

lemma sum_list_ge_bound:
  "\<forall>x \<in> set xs. c \<le> x \<Longrightarrow> real (length xs) * (c::real) \<le> sum_list xs"
  by (induction xs) (auto simp add: algebra_simps)

lemma mean_of_tail_greater:
  assumes srt: "sorted_wrt (<) (w::real list)" and f: "0 < f" "f < length w"
  shows "sum_list w / real (length w) < sum_list (drop (length w - f) w) / real f"
proof -
  let ?n = "length w"
  let ?A = "take (?n - f) w"
  let ?B = "drop (?n - f) w"
  have w: "w = ?A @ ?B" by simp
  have lenA: "length ?A = ?n - f" by simp
  have lenB: "length ?B = f" using f by simp
  have Bne: "?B \<noteq> []" using f lenB by auto
  have Ane: "?A \<noteq> []" using f by auto
  define b where "b = hd ?B"
  have srt': "sorted_wrt (<) (?A @ ?B)" using srt by simp
  then have AB: "\<forall>x \<in> set ?A. \<forall>y \<in> set ?B. x < y" and sB: "sorted_wrt (<) ?B"
    unfolding sorted_wrt_append by blast+
  have bB: "b \<in> set ?B" using Bne unfolding b_def by (rule hd_in_set)
  have A_lt: "\<forall>x \<in> set ?A. x < b" using AB bB by blast
  obtain y ys where B: "?B = y # ys" using Bne by (cases ?B) auto
  then have b_y: "b = y" by (simp add: b_def)
  have "\<forall>z \<in> set ys. y < z" using sB B by simp
  then have B_ge: "\<forall>z \<in> set ?B. b \<le> z" using B b_y by auto
  have sA: "sum_list ?A < real (?n - f) * b"
    using sum_list_less_bound [OF Ane A_lt] lenA by simp
  have sBge: "real f * b \<le> sum_list ?B"
    using sum_list_ge_bound [OF B_ge] lenB by simp
  have sumw: "sum_list w = sum_list ?A + sum_list ?B"
    by (metis w sum_list.append)
  have fpos: "0 < real f" and npos: "0 < real ?n" and dpos: "0 < real (?n - f)"
    using f by auto
  have "real f * sum_list ?A < real f * (real (?n - f) * b)"
    using sA fpos by (simp only: mult_strict_left_mono)
  also have "\<dots> = real (?n - f) * (real f * b)" by simp
  also have "\<dots> \<le> real (?n - f) * sum_list ?B"
    using sBge dpos by (simp only: mult_left_mono less_imp_le)
  finally have key: "real f * sum_list ?A < real (?n - f) * sum_list ?B" .
  have nf: "real (?n - f) = real ?n - real f" using f by (simp add: of_nat_diff)
  have "real f * (sum_list ?A + sum_list ?B) < real ?n * sum_list ?B"
    using key by (simp add: nf algebra_simps)
  then have "sum_list w * real f < sum_list ?B * real ?n"
    by (simp add: sumw mult.commute)
  then show ?thesis
    using fpos npos by (simp add: divide_less_eq pos_divide_less_eq field_simps)
qed

lemma fast_window:
  assumes "f \<le> s" "s \<le> t + 1"
  shows "take f (drop (t + 1 - f) cs) = drop (s - f) (take s (drop (t + 1 - s) cs))"
proof -
  have "drop (s - f) (take s (drop (t + 1 - s) cs))
        = take (s - (s - f)) (drop (s - f) (drop (t + 1 - s) cs))"
    by (simp only: drop_take)
  also have "\<dots> = take f (drop ((s - f) + (t + 1 - s)) cs)"
    using assms by (simp add: add.commute)
  also have "(s - f) + (t + 1 - s) = t + 1 - f" using assms by simp
  finally show ?thesis by simp
qed

lemma fast_above_slow:
  assumes srt: "sorted_wrt (<) closes" and fs: "0 < fast" "fast < slow"
    and t: "slow \<le> t + 1" "t < length closes"
  shows "\<exists>a b. sma fast closes t = Some a \<and> sma slow closes t = Some b \<and> b < a"
proof -
  let ?w = "take slow (drop (t + 1 - slow) closes)"
  have len: "length ?w = slow" using t by simp
  have sw: "sorted_wrt (<) ?w"
    using srt by (simp add: sorted_wrt_take sorted_wrt_drop)
  have fw: "take fast (drop (t + 1 - fast) closes) = drop (length ?w - fast) ?w"
    using fast_window [of fast slow t closes] fs t len by simp
  have "sum_list ?w / real (length ?w) < sum_list (drop (length ?w - fast) ?w) / real fast"
    using mean_of_tail_greater [OF sw fs(1)] fs len by simp
  then have "sum_list ?w / real slow < sum_list (take fast (drop (t + 1 - fast) closes)) / real fast"
    using fw len by simp
  moreover have "sma fast closes t = Some (sum_list (take fast (drop (t + 1 - fast) closes)) / real fast)"
    using fs t by (simp add: sma_def)
  moreover have "sma slow closes t = Some (sum_list ?w / real slow)"
    using fs t by (simp add: sma_def)
  ultimately show ?thesis by blast
qed

lemma sma_ready: "sma n closes t = Some a \<Longrightarrow> n \<le> t + 1 \<and> t < length closes \<and> 0 < n"
  by (auto simp add: sma_def split: if_splits)

lemma crossover_flat:
  assumes srt: "sorted_wrt (<) closes" and fs: "fast < slow"
  shows "crossover fast slow closes t = None \<or> crossover fast slow closes t = Some 0"
proof (cases "crossover fast slow closes t")
  case None
  then show ?thesis by simp
next
  case (Some c)
  then have t0: "t \<noteq> 0" by (auto simp add: crossover_def split: if_splits)
  from Some obtain pf ps c_f cs where
    v: "sma fast closes (t - 1) = Some pf" "sma slow closes (t - 1) = Some ps"
       "sma fast closes t = Some c_f" "sma slow closes t = Some cs"
    using t0 by (auto simp add: crossover_def split: option.splits)
  from sma_ready [OF v(3)] have f0: "0 < fast" by simp
  from sma_ready [OF v(2)] have p: "slow \<le> (t - 1) + 1" "t - 1 < length closes" by auto
  from sma_ready [OF v(4)] have q: "slow \<le> t + 1" "t < length closes" by auto
  from fast_above_slow [OF srt f0 fs p] v have "ps < pf" by auto
  moreover from fast_above_slow [OF srt f0 fs q] v have "cs < c_f" by auto
  ultimately show ?thesis
    using t0 v by (simp add: crossover_def)
qed

lemma next_flat: "MAcrossoverStrategy_next 0 s = s"
  by (simp add: MAcrossoverStrategy_next_def)

lemma ma_bar_keeps_log:
  assumes "sorted_wrt (<) closes" "fast < slow" "keeps_log broker_step"
  shows "signal_log (ma_bar broker_step fast slow closes s t) = signal_log s"
  using crossover_flat [OF assms(1,2), of t] assms(3)
  by (auto simp add: ma_bar_def keeps_log_def next_flat)

lemma ma_fold_keeps_log:
  assumes "sorted_wrt (<) closes" "fast < slow" "keeps_log broker_step"
  shows "signal_log (foldl (ma_bar broker_step fast slow closes) s ts) = signal_log s"
  by (induction ts arbitrary: s) (simp_all add: ma_bar_keeps_log [OF assms])

text \<open>
  C8. On a strictly increasing series of closes, and with a fast period smaller than the
  slow period, the run of the moving-average crossover strategy logs at most one BUY
  signal and no SELL signal, whatever the broker does between the bars as long as it does
  not write signals itself.
\<close>

theorem ma_crossover_rising_prices:
  assumes "sorted_wrt (<) closes" and "fast < slow" and "keeps_log broker_step"
  shows "length (filter (\<lambda>g. g = BUY) (new_signals s0 (ma_run broker_step fast slow closes s0))) \<le> 1
       \<and> filter (\<lambda>g. g = SELL) (new_signals s0 (ma_run broker_step fast slow closes s0)) = []"
  using ma_fold_keeps_log [OF assms, of s0 "[0..<length closes]"]
  by (simp add: ma_run_def new_signals_def)

theorem ma_crossover_rising_prices_witness:
  "sorted_wrt (<) [1, 2, 3, 4, 5 :: real] \<and> (2 :: nat) < 3 \<and> keeps_log (\<lambda>t s. s)
   \<and> length (filter (\<lambda>g. g = BUY)
        (new_signals (init_strategy \<lparr>cash = 100, position_size = 0, placed = []\<rparr>)
           (ma_run (\<lambda>t s. s) 2 3 [1, 2, 3, 4, 5]
              (init_strategy \<lparr>cash = 100, position_size = 0, placed = []\<rparr>)))) \<le> 1
   \<and> filter (\<lambda>g. g = SELL)
        (new_signals (init_strategy \<lparr>cash = 100, position_size = 0, placed = []\<rparr>)
           (ma_run (\<lambda>t s. s) 2 3 [1, 2, 3, 4, 5]
              (init_strategy \<lparr>cash = 100, position_size = 0, placed = []\<rparr>))) = []"
  using ma_crossover_rising_prices [of "[1, 2, 3, 4, 5]" 2 3 "\<lambda>t s. s"
      "init_strategy \<lparr>cash = 100, position_size = 0, placed = []\<rparr>"]
  by (simp add: keeps_log_def)

end
